theory Spec2Isabelle
  imports Main
begin

section \<open>Data model\<close>

text \<open>
  The controllers of the repository (\<open>NewsletterController\<close>, \<open>UserController\<close>) and the
  \<open>Feed\<close> model, embedded as functions over an explicit world: the two tables the services
  persist, and an ordered trace of every call a controller makes on a collaborator
  (services, the response object \<open>res\<close>, the \<open>next\<close> callback, the activity logger).
  A thrown \<open>APIError\<close> is the \<open>Inl\<close> branch of the result. The response object and
  \<open>next\<close> are the framework's and only record what they are called with: what the
  framework does with a second response on one request is not part of the embedding.
\<close>

datatype HttpStatus =
    OK | CREATED | NO_CONTENT
  | BAD_REQUEST | UNAUTHORIZED | FORBIDDEN | NOT_FOUND | UNPROCESSABLE_ENTITY

text \<open>\<open>new APIError(name, status, message)\<close>; the two JavaScript run-time errors the
  modelled code can raise are separate constructors.\<close>

datatype error =
    APIError string HttpStatus string
  | ReferenceError string
  | TypeError string

record User =
  user_id :: int
  user_name :: string
  email :: string
  password :: string
  super :: bool
  pendingConfirm :: bool
  pendingPassword :: bool

text \<open>\<open>userId\<close> is the owning user's identifier; \<open>None\<close> is a null column.\<close>

record Newsletter =
  newsletter_id :: int
  newsletter_name :: string
  userId :: "int option"
  active :: bool

text \<open>\<open>req.body\<close>. \<open>body_userId = None\<close> stands for a payload without a numeric
  \<open>userId\<close>: the controllers only compare it with \<open>!==\<close> against a number.\<close>

record Body =
  body_name :: string
  body_email :: string
  body_password :: string
  body_super :: bool
  body_pendingConfirm :: bool
  body_userId :: "int option"

text \<open>
  The request as the controllers read it: \<open>req.userId\<close>, \<open>parseInt(req.params.id)\<close>
  (\<open>None\<close> is \<open>NaN\<close>, which is \<open>!==\<close> to every id), \<open>req.query\<close>, \<open>req.body\<close> and the
  array of \<open>validationResult(req)\<close>. \<open>query_loggedUser\<close> is true exactly when
  \<open>req.query.loggedUser === true\<close>.
\<close>

record Request =
  req_userId :: int
  params_id :: "int option"
  query_page :: int
  query_size :: int
  query_name :: "string option"
  query_loggedUser :: bool
  body :: Body
  validationErrors :: "string list"

record Filter =
  filter_page :: int
  filter_size :: int
  filter_name :: "string option"
  filter_userId :: "int option"

text \<open>What \<open>getPermissions\<close> returns.\<close>

record Permissions =
  loggedUser :: User
  permissionOnlyHimself :: bool
  permissionSuper :: bool

text \<open>Payloads handed to \<open>res.json\<close>. The page envelopes of the pagination helper are kept
  symbolic: the rows (or the single entity) with the page and size they were built from.\<close>

datatype json =
    Errors "string list"
  | PagingData_Newsletter "Newsletter list" int int
  | PagingData_User "User list" int int
  | PagingDataForSingle User int int
  | Json_Newsletter Newsletter
  | Json_User "User option"
  | Json_Message string Newsletter
  | Json_Promotion string "User option"
  | Json_undefined

datatype event =
    UserService_findById_called "int option"
  | UserService_findAll_called Filter
  | UserService_save_called string string string bool
  | UserService_edit_called User string string string
  | UserService_editById_called "int option" string string string bool
  | UserService_remove_called User
  | UserService_promote_called "int option"
  | NewsletterService_findAll_called Filter
  | NewsletterService_findById_called "int option"
  | NewsletterService_save_called Body
  | NewsletterService_edit_called Newsletter Body
  | NewsletterService_activate_called Newsletter
  | NewsletterService_deactivate_called Newsletter
  | NewsletterService_remove_called Newsletter
  | Res_status HttpStatus
  | Res_json json
  | Next_called bool
  | LogActivity int string string int string

record world =
  users :: "User list"
  newsletters :: "Newsletter list"
  trace :: "event list"

section \<open>Sequencing, exceptions and the call trace\<close>

type_synonym 'a action = "world \<Rightarrow> (error + 'a) \<times> world"

definition return :: "'a \<Rightarrow> 'a action" where
  "return x = (\<lambda>w. (Inr x, w))"

definition throw :: "error \<Rightarrow> 'a action" where
  "throw e = (\<lambda>w. (Inl e, w))"

text \<open>\<open>const x = await m; f x\<close>: an exception of \<open>m\<close> ends the action with the world as
  \<open>m\<close> left it.\<close>

definition andThen :: "'a action \<Rightarrow> ('a \<Rightarrow> 'b action) \<Rightarrow> 'b action" where
  "andThen m f = (\<lambda>w. case m w of (Inl e, w') \<Rightarrow> (Inl e, w') | (Inr x, w') \<Rightarrow> f x w')"

definition seq :: "'a action \<Rightarrow> 'b action \<Rightarrow> 'b action" where
  "seq m n = andThen m (\<lambda>_. n)"

definition emit :: "event \<Rightarrow> unit action" where
  "emit e = (\<lambda>w. (Inr (), w\<lparr>trace := trace w @ [e]\<rparr>))"

definition res_status :: "HttpStatus \<Rightarrow> unit action" where
  "res_status s = emit (Res_status s)"

definition res_json :: "json \<Rightarrow> unit action" where
  "res_json j = emit (Res_json j)"

text \<open>\<open>next()\<close> is \<open>next_call False\<close>, \<open>next(res)\<close> is \<open>next_call True\<close>.\<close>

definition next_call :: "bool \<Rightarrow> unit action" where
  "next_call withRes = emit (Next_called withRes)"

section \<open>Services\<close>

definition find_user :: "User list \<Rightarrow> int option \<Rightarrow> User option" where
  "find_user us i = (case i of None \<Rightarrow> None | Some k \<Rightarrow> find (\<lambda>u. user_id u = k) us)"

definition find_newsletter :: "Newsletter list \<Rightarrow> int option \<Rightarrow> Newsletter option" where
  "find_newsletter ns i =
     (case i of None \<Rightarrow> None | Some k \<Rightarrow> find (\<lambda>n. newsletter_id n = k) ns)"

fun starts_with :: "string \<Rightarrow> string \<Rightarrow> bool" where
  "starts_with s [] = True"
| "starts_with [] (c # cs) = False"
| "starts_with (d # ds) (c # cs) = (d = c \<and> starts_with ds cs)"

fun contains :: "string \<Rightarrow> string \<Rightarrow> bool" where
  "contains [] sub = (sub = [])"
| "contains (d # ds) sub = (starts_with (d # ds) sub \<or> contains ds sub)"

definition name_matches :: "Filter \<Rightarrow> string \<Rightarrow> bool" where
  "name_matches f n = (case filter_name f of None \<Rightarrow> True | Some s \<Rightarrow> contains n s)"

definition owner_matches :: "Filter \<Rightarrow> int option \<Rightarrow> bool" where
  "owner_matches f owner = (case filter_userId f of None \<Rightarrow> True | Some k \<Rightarrow> owner = Some k)"

definition fresh_id :: "int list \<Rightarrow> int" where
  "fresh_id ids = foldr max ids 0 + 1"

text \<open>
  Modelled from the spec: \<open>services/user-service\<close> is missing from the sources; the spec
  names its contract (\<open>findById\<close>, \<open>findAll(filter)\<close>, \<open>save(dto)\<close>, \<open>edit(entity, dto)\<close>,
  \<open>editById(id, dto)\<close>, \<open>remove(entity)\<close>, \<open>promote(id)\<close>) over the persisted user
  records. Each call is recorded in the trace and acts on the \<open>users\<close> table: lookups by
  identifier, removal of the record, field updates of the record.
\<close>

definition UserService_findById :: "int option \<Rightarrow> User option action" where
  "UserService_findById i =
     (\<lambda>w. (Inr (find_user (users w) i),
            w\<lparr>trace := trace w @ [UserService_findById_called i]\<rparr>))"

definition UserService_findAll :: "Filter \<Rightarrow> User list action" where
  "UserService_findAll f =
     (\<lambda>w. (Inr (filter (\<lambda>u. name_matches f (user_name u)) (users w)),
            w\<lparr>trace := trace w @ [UserService_findAll_called f]\<rparr>))"

definition UserService_save :: "string \<Rightarrow> string \<Rightarrow> string \<Rightarrow> bool \<Rightarrow> User action" where
  "UserService_save n e p superUser =
     (\<lambda>w. let u = \<lparr>user_id = fresh_id (map user_id (users w)), user_name = n, email = e,
                     password = p, super = superUser, pendingConfirm = False,
                     pendingPassword = False\<rparr>
           in (Inr u, w\<lparr>users := users w @ [u],
                         trace := trace w @ [UserService_save_called n e p superUser]\<rparr>))"

definition UserService_edit :: "User \<Rightarrow> string \<Rightarrow> string \<Rightarrow> string \<Rightarrow> User action" where
  "UserService_edit entity n e p =
     (\<lambda>w. let u = entity\<lparr>user_name := n, email := e, password := p\<rparr>
           in (Inr u,
               w\<lparr>users := map (\<lambda>x. if user_id x = user_id entity then u else x) (users w),
                  trace := trace w @ [UserService_edit_called entity n e p]\<rparr>))"

definition UserService_editById ::
  "int option \<Rightarrow> string \<Rightarrow> string \<Rightarrow> string \<Rightarrow> bool \<Rightarrow> User option action" where
  "UserService_editById i n e p pc =
     (\<lambda>w. let upd = (\<lambda>x. x\<lparr>user_name := n, email := e, password := p, pendingConfirm := pc\<rparr>)
           in (Inr (map_option upd (find_user (users w) i)),
               w\<lparr>users := map (\<lambda>x. if Some (user_id x) = i then upd x else x) (users w),
                  trace := trace w @ [UserService_editById_called i n e p pc]\<rparr>))"

definition UserService_remove :: "User \<Rightarrow> unit action" where
  "UserService_remove entity =
     (\<lambda>w. (Inr (),
            w\<lparr>users := filter (\<lambda>x. user_id x \<noteq> user_id entity) (users w),
               trace := trace w @ [UserService_remove_called entity]\<rparr>))"

definition UserService_promote :: "int option \<Rightarrow> User option action" where
  "UserService_promote i =
     (\<lambda>w. let upd = (\<lambda>x. x\<lparr>super := True, pendingConfirm := True\<rparr>)
           in (Inr (map_option upd (find_user (users w) i)),
               w\<lparr>users := map (\<lambda>x. if Some (user_id x) = i then upd x else x) (users w),
                  trace := trace w @ [UserService_promote_called i]\<rparr>))"

text \<open>
  Modelled from the spec: \<open>services/newsletter-service\<close> is missing from the sources; the
  spec names its contract (\<open>findAll(filter)\<close>, \<open>findById(id)\<close>, \<open>save(dto)\<close>,
  \<open>edit(entity, dto)\<close>, \<open>remove(entity)\<close>, \<open>activate(entity)\<close>, \<open>deactivate(entity)\<close>)
  and that a filter restricts the result to the items of \<open>userId\<close> whose name contains
  \<open>name\<close>. Paging of the rows is left to the pagination helper.
\<close>

definition NewsletterService_findAll :: "Filter \<Rightarrow> Newsletter list action" where
  "NewsletterService_findAll f =
     (\<lambda>w. (Inr (filter (\<lambda>n. owner_matches f (userId n) \<and> name_matches f (newsletter_name n))
                   (newsletters w)),
            w\<lparr>trace := trace w @ [NewsletterService_findAll_called f]\<rparr>))"

definition NewsletterService_findById :: "int option \<Rightarrow> Newsletter option action" where
  "NewsletterService_findById i =
     (\<lambda>w. (Inr (find_newsletter (newsletters w) i),
            w\<lparr>trace := trace w @ [NewsletterService_findById_called i]\<rparr>))"

definition NewsletterService_save :: "Body \<Rightarrow> Newsletter action" where
  "NewsletterService_save dto =
     (\<lambda>w. let n = \<lparr>newsletter_id = fresh_id (map newsletter_id (newsletters w)),
                     newsletter_name = body_name dto, userId = body_userId dto, active = True\<rparr>
           in (Inr n, w\<lparr>newsletters := newsletters w @ [n],
                         trace := trace w @ [NewsletterService_save_called dto]\<rparr>))"

definition NewsletterService_edit :: "Newsletter \<Rightarrow> Body \<Rightarrow> Newsletter action" where
  "NewsletterService_edit entity dto =
     (\<lambda>w. let n = entity\<lparr>newsletter_name := body_name dto, userId := body_userId dto\<rparr>
           in (Inr n,
               w\<lparr>newsletters :=
                    map (\<lambda>x. if newsletter_id x = newsletter_id entity then n else x)
                      (newsletters w),
                  trace := trace w @ [NewsletterService_edit_called entity dto]\<rparr>))"

definition set_active :: "bool \<Rightarrow> Newsletter \<Rightarrow> Newsletter list \<Rightarrow> Newsletter list" where
  "set_active b entity ns =
     map (\<lambda>x. if newsletter_id x = newsletter_id entity then x\<lparr>active := b\<rparr> else x) ns"

definition NewsletterService_activate :: "Newsletter \<Rightarrow> unit action" where
  "NewsletterService_activate entity =
     (\<lambda>w. (Inr (), w\<lparr>newsletters := set_active True entity (newsletters w),
                       trace := trace w @ [NewsletterService_activate_called entity]\<rparr>))"

definition NewsletterService_deactivate :: "Newsletter \<Rightarrow> unit action" where
  "NewsletterService_deactivate entity =
     (\<lambda>w. (Inr (), w\<lparr>newsletters := set_active False entity (newsletters w),
                       trace := trace w @ [NewsletterService_deactivate_called entity]\<rparr>))"

definition NewsletterService_remove :: "Newsletter \<Rightarrow> unit action" where
  "NewsletterService_remove entity =
     (\<lambda>w. (Inr (),
            w\<lparr>newsletters :=
                 filter (\<lambda>x. newsletter_id x \<noteq> newsletter_id entity) (newsletters w),
               trace := trace w @ [NewsletterService_remove_called entity]\<rparr>))"

section \<open>NewsletterController\<close>

text \<open>
  \<open>static validate(req, res)\<close>: sends 422 with the error array when the validation result
  is not empty. Its \<open>return\<close> leaves \<open>validate\<close> only; every caller discards the value and
  goes on with its next statement.
\<close>

definition NewsletterController_validate :: "Request \<Rightarrow> unit action" where
  "NewsletterController_validate req =
     (if validationErrors req \<noteq> []
      then seq (res_status UNPROCESSABLE_ENTITY) (res_json (Errors (validationErrors req)))
      else return ())"

definition NewsletterController_getPermissions :: "Request \<Rightarrow> bool \<Rightarrow> Permissions action" where
  "NewsletterController_getPermissions req blockedByChangePassword =
     andThen (UserService_findById (Some (req_userId req))) (\<lambda>found.
       case found of
         None \<Rightarrow> throw (APIError ''Unauthorized'' UNAUTHORIZED ''Logged user cannot be found!'')
       | Some lu \<Rightarrow>
           if blockedByChangePassword \<and> pendingPassword lu
           then throw (APIError ''Forbidden'' FORBIDDEN
                  ''You must change your password before proceeding with this operation.'')
           else return \<lparr>loggedUser = lu,
                        permissionOnlyHimself = ((\<not> super lu) \<or> (super lu \<and> pendingConfirm lu)),
                        permissionSuper = (super lu \<and> \<not> pendingConfirm lu)\<rparr>)"

definition logActivity_Newsletter :: "Newsletter \<Rightarrow> string \<Rightarrow> User \<Rightarrow> unit action" where
  "logActivity_Newsletter entity act lu =
     emit (LogActivity (newsletter_id entity) (newsletter_name entity) act
             (user_id lu) (user_name lu))"

text \<open>
  \<open>listAllFromLoggedUser\<close> sets \<open>req.query.loggedUser = true\<close> and then evaluates the
  bare identifier \<open>listAll\<close>. A class body binds no identifier for its methods, so the
  name is looked up in the enclosing scopes: the method's parameters, the module's
  bindings, and last the global object (a parameter, mapping a global name to what
  calling it does). A name bound nowhere raises \<open>ReferenceError\<close>.
\<close>

definition method_scope :: "string list" where
  "method_scope = [''req'', ''res'']"

definition module_scope :: "string list" where
  "module_scope =
     [''HttpStatus'', ''APIError'', ''validationResult'', ''UserService'',
      ''NewsletterService'', ''Pagination'', ''userLogger'', ''NewsletterController'',
      ''exports'', ''require'', ''module'', ''__filename'', ''__dirname'']"

definition NewsletterController_listAllFromLoggedUser ::
  "(string \<Rightarrow> (Request \<Rightarrow> unit action) option) \<Rightarrow> Request \<Rightarrow> unit action" where
  "NewsletterController_listAllFromLoggedUser globals req =
     (let req' = req\<lparr>query_loggedUser := True\<rparr>
      in if ''listAll'' \<in> set method_scope \<or> ''listAll'' \<in> set module_scope
         then throw (TypeError ''listAll is not a function'')
         else case globals ''listAll'' of
                None \<Rightarrow> throw (ReferenceError ''listAll is not defined'')
              | Some f \<Rightarrow> f req')"

text \<open>\<open>getFilter\<close> is \<open>Pagination.getFilter\<close> applied to \<open>req.query\<close>; the helper is not
  among the sources and is a parameter of the two list actions.\<close>

definition NewsletterController_listAll :: "(Request \<Rightarrow> Filter) \<Rightarrow> Request \<Rightarrow> unit action" where
  "NewsletterController_listAll getFilter req =
     seq (NewsletterController_validate req)
    (andThen (NewsletterController_getPermissions req True) (\<lambda>p.
       let f0 = getFilter req;
           f1 = (if permissionOnlyHimself p \<or> query_loggedUser req
                 then f0\<lparr>filter_userId := Some (user_id (loggedUser p))\<rparr> else f0);
           f2 = (if query_name req \<noteq> None \<and> query_name req \<noteq> Some []
                 then f1\<lparr>filter_name := query_name req\<rparr> else f1)
       in andThen (NewsletterService_findAll f2) (\<lambda>rows.
            res_json (PagingData_Newsletter rows (filter_page f2) (filter_size f2)))))"

definition NewsletterController_findById :: "Request \<Rightarrow> unit action" where
  "NewsletterController_findById req =
     seq (NewsletterController_validate req)
    (andThen (NewsletterController_getPermissions req True) (\<lambda>p.
       let requestedId = params_id req
       in andThen (NewsletterService_findById requestedId) (\<lambda>requestedNewsletter.
            case requestedNewsletter of
              None \<Rightarrow> throw (APIError ''Not found'' NOT_FOUND ''Newsletter not found'')
            | Some n \<Rightarrow>
                if permissionOnlyHimself p \<and> userId n \<noteq> Some (user_id (loggedUser p))
                then throw (APIError ''Forbidden'' FORBIDDEN
                       ''You cannot access newsletter from another user'')
                else res_json (Json_Newsletter n))))"

definition NewsletterController_create :: "Request \<Rightarrow> unit action" where
  "NewsletterController_create req =
     seq (NewsletterController_validate req)
    (let newsletterDto = body req
     in andThen (NewsletterController_getPermissions req True) (\<lambda>p.
          if permissionOnlyHimself p \<and> Some (user_id (loggedUser p)) \<noteq> body_userId newsletterDto
          then throw (APIError ''Forbidden'' FORBIDDEN
                 ''You don't have privileges to create newsletters from another users'')
          else andThen (NewsletterService_save newsletterDto) (\<lambda>createdNewsletter.
                 seq (res_status CREATED)
                (seq (res_json (Json_Newsletter createdNewsletter))
                     (logActivity_Newsletter createdNewsletter ''was created'' (loggedUser p))))))"

definition NewsletterController_edit :: "Request \<Rightarrow> unit action" where
  "NewsletterController_edit req =
     seq (NewsletterController_validate req)
    (andThen (NewsletterController_getPermissions req True) (\<lambda>p.
       let requestedId = params_id req;
           newsletterDto = body req
       in andThen (NewsletterService_findById requestedId) (\<lambda>requestedNewsletter.
            case requestedNewsletter of
              None \<Rightarrow> throw (APIError ''Not found'' NOT_FOUND ''Newsletter not found'')
            | Some n \<Rightarrow>
                if permissionOnlyHimself p \<and> Some (user_id (loggedUser p)) \<noteq> userId n
                then throw (APIError ''Forbidden'' FORBIDDEN
                       ''You don't have privileges to edit newsletters of another users'')
                else if permissionOnlyHimself p \<and> userId n \<noteq> body_userId newsletterDto
                then throw (APIError ''Forbidden'' FORBIDDEN
                       ''You don't have privileges to transfer newsletters to another users'')
                else andThen (NewsletterService_edit n newsletterDto) (\<lambda>editedNewsletter.
                       seq (res_status OK)
                      (seq (res_json (Json_Newsletter editedNewsletter))
                           (logActivity_Newsletter editedNewsletter ''was edited''
                              (loggedUser p)))))))"

text \<open>
  \<open>activate\<close>, \<open>deactivate\<close> and \<open>remove\<close> do not await the service: the response and the
  log entry are sent from the promise's \<open>then\<close> callback, after the method has returned.
  The embedding runs the callback in sequence; nothing in it raises.
\<close>

definition NewsletterController_activate :: "Request \<Rightarrow> unit action" where
  "NewsletterController_activate req =
     seq (NewsletterController_validate req)
    (andThen (NewsletterController_getPermissions req True) (\<lambda>p.
       let requestedId = params_id req
       in andThen (NewsletterService_findById requestedId) (\<lambda>requestedNewsletter.
            case requestedNewsletter of
              None \<Rightarrow> throw (APIError ''Not found'' NOT_FOUND ''Newsletter not found'')
            | Some n \<Rightarrow>
                if permissionOnlyHimself p \<and> Some (user_id (loggedUser p)) \<noteq> userId n
                then throw (APIError ''Forbidden'' FORBIDDEN
                       ''You don't have privileges to edit newsletters of another users'')
                else seq (NewsletterService_activate n)
                    (seq (res_status OK)
                    (seq (res_json (Json_Message ''Newsletter was activated successfully'' n))
                         (logActivity_Newsletter n ''was activated'' (loggedUser p)))))))"

definition NewsletterController_deactivate :: "Request \<Rightarrow> unit action" where
  "NewsletterController_deactivate req =
     seq (NewsletterController_validate req)
    (andThen (NewsletterController_getPermissions req True) (\<lambda>p.
       let requestedId = params_id req
       in andThen (NewsletterService_findById requestedId) (\<lambda>requestedNewsletter.
            case requestedNewsletter of
              None \<Rightarrow> throw (APIError ''Not found'' NOT_FOUND ''Newsletter not found'')
            | Some n \<Rightarrow>
                if permissionOnlyHimself p \<and> Some (user_id (loggedUser p)) \<noteq> userId n
                then throw (APIError ''Forbidden'' FORBIDDEN
                       ''You don't have privileges to edit newsletters of another users'')
                else seq (NewsletterService_deactivate n)
                    (seq (res_status OK)
                    (seq (res_json (Json_Message ''Newsletter was deactivated successfully'' n))
                         (logActivity_Newsletter n ''was deactivated'' (loggedUser p)))))))"

definition NewsletterController_remove :: "Request \<Rightarrow> unit action" where
  "NewsletterController_remove req =
     seq (NewsletterController_validate req)
    (andThen (NewsletterController_getPermissions req True) (\<lambda>p.
       let requestedId = params_id req
       in andThen (NewsletterService_findById requestedId) (\<lambda>requestedNewsletter.
            case requestedNewsletter of
              None \<Rightarrow> throw (APIError ''Not found'' NOT_FOUND ''Newsletter not found'')
            | Some n \<Rightarrow>
                if permissionOnlyHimself p \<and> Some (user_id (loggedUser p)) \<noteq> userId n
                then throw (APIError ''Forbidden'' FORBIDDEN
                       ''You don't have privileges to edit newsletters of another users'')
                else seq (NewsletterService_remove n)
                    (seq (res_status NO_CONTENT)
                    (seq (res_json Json_undefined)
                         (logActivity_Newsletter n ''was removed'' (loggedUser p)))))))"

section \<open>UserController\<close>

definition UserController_validate :: "Request \<Rightarrow> unit action" where
  "UserController_validate req =
     (if validationErrors req \<noteq> []
      then seq (res_status UNPROCESSABLE_ENTITY) (res_json (Errors (validationErrors req)))
      else return ())"

definition UserController_getPermissions :: "Request \<Rightarrow> bool \<Rightarrow> Permissions action" where
  "UserController_getPermissions req blockChangePassword =
     andThen (UserService_findById (Some (req_userId req))) (\<lambda>found.
       case found of
         None \<Rightarrow> throw (APIError ''Unauthorized'' UNAUTHORIZED ''auth.logged-user-not-found'')
       | Some lu \<Rightarrow>
           if blockChangePassword \<and> pendingPassword lu
           then throw (APIError ''Forbidden'' FORBIDDEN ''auth.pendant-change-temporary-password'')
           else return \<lparr>loggedUser = lu,
                        permissionOnlyHimself = ((\<not> super lu) \<or> (super lu \<and> pendingConfirm lu)),
                        permissionSuper = (super lu \<and> \<not> pendingConfirm lu)\<rparr>)"

definition UserController_listAll :: "(Request \<Rightarrow> Filter) \<Rightarrow> Request \<Rightarrow> unit action" where
  "UserController_listAll getFilter req =
     seq (UserController_validate req)
    (andThen (UserController_getPermissions req True) (\<lambda>p.
       let f0 = getFilter req;
           f1 = (if query_name req \<noteq> None \<and> query_name req \<noteq> Some []
                 then f0\<lparr>filter_name := query_name req\<rparr> else f0)
       in andThen (if \<not> permissionOnlyHimself p
                   then andThen (UserService_findAll f1) (\<lambda>rows.
                          return (PagingData_User rows (filter_page f1) (filter_size f1)))
                   else return (PagingDataForSingle (loggedUser p)
                                  (filter_page f1) (filter_size f1))) (\<lambda>js.
            seq (res_json js) (next_call False))))"

definition UserController_findById :: "Request \<Rightarrow> unit action" where
  "UserController_findById req =
     seq (UserController_validate req)
    (andThen (UserController_getPermissions req False) (\<lambda>p.
       let requestedId = params_id req
       in if permissionOnlyHimself p
          then if Some (user_id (loggedUser p)) \<noteq> requestedId
               then throw (APIError ''Forbidden'' FORBIDDEN
                      ''user.not-have-privileges-to-another-user-data'')
               else if pendingPassword (loggedUser p)
               then throw (APIError ''Forbidden'' FORBIDDEN
                      ''auth.pendant-change-temporary-password'')
               else seq (res_json (Json_User (Some (loggedUser p)))) (next_call True)
          else andThen (UserService_findById requestedId) (\<lambda>requestedUser.
                 case requestedUser of
                   None \<Rightarrow> throw (APIError ''Not found'' NOT_FOUND ''user.not-found'')
                 | Some ru \<Rightarrow> seq (res_json (Json_User (Some ru))) (next_call False))))"

text \<open>
  In \<open>remove\<close> the self-only branch ends with \<open>next(res)\<close> and no \<open>return\<close>: control goes
  on to the statements after the \<open>if\<close>.
\<close>

definition UserController_remove :: "Request \<Rightarrow> unit action" where
  "UserController_remove req =
     seq (UserController_validate req)
    (andThen (UserController_getPermissions req False) (\<lambda>p.
       let requestedId = params_id req
       in seq (if permissionOnlyHimself p
               then if Some (user_id (loggedUser p)) \<noteq> requestedId
                    then throw (APIError ''Forbidden'' FORBIDDEN
                           ''user.not-have-privileges-to-delete-users'')
                    else if pendingPassword (loggedUser p)
                    then throw (APIError ''Forbidden'' FORBIDDEN
                           ''auth.pendant-change-temporary-password'')
                    else seq (UserService_remove (loggedUser p))
                        (seq (res_status NO_CONTENT)
                        (seq (res_json Json_undefined) (next_call True)))
               else return ())
          (if Some (user_id (loggedUser p)) = requestedId \<and> pendingPassword (loggedUser p)
           then throw (APIError ''Forbidden'' FORBIDDEN
                  ''auth.pendant-change-temporary-password'')
           else andThen (UserService_findById requestedId) (\<lambda>requestedUser.
                  case requestedUser of
                    None \<Rightarrow> throw (APIError ''Not found'' NOT_FOUND ''user.not-found'')
                  | Some ru \<Rightarrow>
                      seq (UserService_remove ru)
                     (seq (res_status NO_CONTENT)
                     (seq (res_json Json_undefined) (next_call False)))))))"

definition UserController_create :: "Request \<Rightarrow> unit action" where
  "UserController_create req =
     seq (UserController_validate req)
    (andThen (UserController_getPermissions req True) (\<lambda>p.
       if permissionOnlyHimself p
       then throw (APIError ''Forbidden'' FORBIDDEN ''user.not-have-privileges-to-create-users'')
       else andThen (UserService_save (body_name (body req)) (body_email (body req))
                       (body_password (body req)) (body_super (body req))) (\<lambda>createdUser.
              seq (res_status CREATED)
             (seq (res_json (Json_User (Some createdUser))) (next_call False)))))"

definition UserController_edit :: "Request \<Rightarrow> unit action" where
  "UserController_edit req =
     seq (UserController_validate req)
    (andThen (UserController_getPermissions req True) (\<lambda>p.
       let requestedId = params_id req
       in if permissionOnlyHimself p
          then if Some (user_id (loggedUser p)) \<noteq> requestedId
               then throw (APIError ''Forbidden'' FORBIDDEN
                      ''user.not-have-privileges-to-edit-users'')
               else andThen (UserService_edit (loggedUser p) (body_name (body req))
                               (body_email (body req)) (body_password (body req))) (\<lambda>editedUser.
                      seq (res_status OK)
                     (seq (res_json (Json_User (Some editedUser))) (next_call True)))
          else andThen (UserService_editById requestedId (body_name (body req))
                          (body_email (body req)) (body_password (body req))
                          (body_pendingConfirm (body req))) (\<lambda>editedUser.
                 seq (res_status OK)
                (seq (res_json (Json_User editedUser)) (next_call False)))))"

definition UserController_promote :: "Request \<Rightarrow> unit action" where
  "UserController_promote req =
     seq (UserController_validate req)
    (andThen (UserController_getPermissions req True) (\<lambda>p.
       if \<not> permissionSuper p
       then throw (APIError ''Forbidden'' FORBIDDEN ''user.not-have-privileges-to-promote-users'')
       else let requestedId = params_id req
            in if Some (user_id (loggedUser p)) = requestedId
               then throw (APIError ''Bad Request'' BAD_REQUEST
                      ''user.not-have-privileges-to-promote-yourself'')
               else andThen (UserService_promote requestedId) (\<lambda>user.
                      seq (res_status OK)
                     (seq (res_json (Json_Promotion ''user.promotion-successfully'' user))
                          (next_call False)))))"

section \<open>Feed\<close>

text \<open>The columns of \<open>Feed.init\<close>; \<open>feed_locale\<close> is the column \<open>locale\<close>, \<open>None\<close> when
  it is null.\<close>

record Feed =
  feed_name :: string
  url :: string
  author :: string
  partial :: bool
  subject :: string
  feed_locale :: "string option"
  articleSelector :: string
  maxPosts :: int
  updatePeriodicity :: int
  dayOfWeek :: int

text \<open>
  \<open>getEncoding\<close> switches on \<open>this.locale.toLowerCase()\<close>; \<open>toLowerCase\<close> is the built-in
  of the string type and a parameter here. A null \<open>locale\<close> has no \<open>toLowerCase\<close>.
\<close>

definition getEncoding :: "(string \<Rightarrow> string) \<Rightarrow> Feed \<Rightarrow> error + string" where
  "getEncoding toLowerCase this =
     (case feed_locale this of
        None \<Rightarrow> Inl (TypeError ''Cannot read properties of null (reading 'toLowerCase')'')
      | Some l \<Rightarrow>
          (let s = toLowerCase l
           in if s = ''pt-br'' then Inr ''Windows-1252''
              else if s = ''en-us'' then Inr ''Windows-1252''
              else Inr ''UTF-8''))"

text \<open>The built-in on ASCII text: \<open>A\<close> to \<open>Z\<close> become \<open>a\<close> to \<open>z\<close>.\<close>

definition ascii_lower_char :: "char \<Rightarrow> char" where
  "ascii_lower_char c =
     (let n = (of_char c :: nat) in if 65 \<le> n \<and> n \<le> 90 then char_of (n + 32) else c)"

definition ascii_toLowerCase :: "string \<Rightarrow> string" where
  "ascii_toLowerCase s = map ascii_lower_char s"

section \<open>Observations and sample data\<close>

text \<open>The calls \<open>validate\<close> makes on \<open>res\<close>: none when the validation result is empty.\<close>

definition validation_events :: "Request \<Rightarrow> event list" where
  "validation_events req =
     (if validationErrors req \<noteq> []
      then [Res_status UNPROCESSABLE_ENTITY, Res_json (Errors (validationErrors req))]
      else [])"

text \<open>The world after an action that only resolved the caller: the tables are untouched
  and the trace gained the calls of \<open>validate\<close> and the identity load.\<close>

definition after_identity :: "Request \<Rightarrow> world \<Rightarrow> world" where
  "after_identity req w =
     w\<lparr>trace := trace w @ validation_events req
                 @ [UserService_findById_called (Some (req_userId req))]\<rparr>"

definition alice :: User where
  "alice = \<lparr>user_id = 1, user_name = ''alice'', email = ''alice@example.org'',
             password = ''a'', super = False, pendingConfirm = False, pendingPassword = False\<rparr>"

definition root_user :: User where
  "root_user = \<lparr>user_id = 2, user_name = ''root'', email = ''root@example.org'',
                 password = ''r'', super = True, pendingConfirm = False, pendingPassword = False\<rparr>"

definition carol :: User where
  "carol = \<lparr>user_id = 3, user_name = ''carol'', email = ''carol@example.org'',
             password = ''c'', super = True, pendingConfirm = True, pendingPassword = False\<rparr>"

definition dave :: User where
  "dave = \<lparr>user_id = 4, user_name = ''dave'', email = ''dave@example.org'',
            password = ''d'', super = False, pendingConfirm = False, pendingPassword = True\<rparr>"

definition erin :: User where
  "erin = \<lparr>user_id = 5, user_name = ''erin'', email = ''erin@example.org'',
            password = ''e'', super = True, pendingConfirm = False, pendingPassword = True\<rparr>"

definition weekly :: Newsletter where
  "weekly = \<lparr>newsletter_id = 10, newsletter_name = ''Weekly digest'', userId = Some 1,
              active = True\<rparr>"

definition monthly :: Newsletter where
  "monthly = \<lparr>newsletter_id = 11, newsletter_name = ''Monthly'', userId = Some 1,
               active = True\<rparr>"

definition weekly_root :: Newsletter where
  "weekly_root = \<lparr>newsletter_id = 12, newsletter_name = ''Root Weekly'', userId = Some 2,
                   active = True\<rparr>"

definition world0 :: world where
  "world0 = \<lparr>users = [alice, root_user, carol, dave, erin],
              newsletters = [weekly, monthly, weekly_root], trace = []\<rparr>"

definition body0 :: Body where
  "body0 = \<lparr>body_name = ''News'', body_email = ''n@example.org'', body_password = ''p'',
             body_super = False, body_pendingConfirm = False, body_userId = None\<rparr>"

text \<open>A request of \<open>caller\<close> on the target \<open>target\<close>, with a valid payload and no filter.\<close>

definition request :: "int \<Rightarrow> int option \<Rightarrow> Request" where
  "request caller target =
     \<lparr>req_userId = caller, params_id = target, query_page = 0, query_size = 10,
      query_name = None, query_loggedUser = False, body = body0, validationErrors = []\<rparr>"

definition getFilter0 :: "Request \<Rightarrow> Filter" where
  "getFilter0 req = \<lparr>filter_page = query_page req, filter_size = query_size req,
                      filter_name = None, filter_userId = None\<rparr>"

text \<open>The object literal both \<open>getPermissions\<close> build from the caller's record.\<close>

definition permissions_of :: "User \<Rightarrow> Permissions" where
  "permissions_of u =
     \<lparr>loggedUser = u,
      permissionOnlyHimself = ((\<not> super u) \<or> (super u \<and> pendingConfirm u)),
      permissionSuper = (super u \<and> \<not> pendingConfirm u)\<rparr>"

text \<open>The world after the target newsletter was looked up and nothing else happened.\<close>

definition after_newsletter_load :: "Request \<Rightarrow> world \<Rightarrow> world" where
  "after_newsletter_load req w =
     (after_identity req w)
       \<lparr>trace := trace (after_identity req w)
                   @ [NewsletterService_findById_called (params_id req)]\<rparr>"

text \<open>The name filter a request asks for: \<open>req.query.name\<close> when it is truthy.\<close>

definition requested_name :: "Request \<Rightarrow> string option" where
  "requested_name req =
     (if query_name req \<noteq> None \<and> query_name req \<noteq> Some [] then query_name req else None)"

definition feed0 :: "string option \<Rightarrow> Feed" where
  "feed0 l = \<lparr>feed_name = ''Example feed'', url = ''https://example.org/rss'',
               author = ''Example'', partial = False, subject = ''News'', feed_locale = l,
               articleSelector = ''article'', maxPosts = 10, updatePeriodicity = 2,
               dayOfWeek = 1\<rparr>"

section \<open>Running the shared prefix of every action\<close>

lemmas monad_defs =
  return_def throw_def andThen_def seq_def emit_def res_status_def res_json_def next_call_def

lemmas sample_defs =
  world0_def alice_def root_user_def carol_def dave_def erin_def weekly_def monthly_def
  weekly_root_def request_def body0_def getFilter0_def find_user_def find_newsletter_def

lemma NewsletterController_validate_run:
  "NewsletterController_validate req w =
     (Inr (), w\<lparr>trace := trace w @ validation_events req\<rparr>)"
  by (simp add: NewsletterController_validate_def validation_events_def monad_defs)

lemma UserController_validate_run:
  "UserController_validate req w = (Inr (), w\<lparr>trace := trace w @ validation_events req\<rparr>)"
  by (simp add: UserController_validate_def validation_events_def monad_defs)

lemma NewsletterController_getPermissions_run:
  "find_user (users w) (Some (req_userId req)) = Some u \<Longrightarrow>
   NewsletterController_getPermissions req b w =
     (if b \<and> pendingPassword u
      then Inl (APIError ''Forbidden'' FORBIDDEN
             ''You must change your password before proceeding with this operation.'')
      else Inr (permissions_of u),
      w\<lparr>trace := trace w @ [UserService_findById_called (Some (req_userId req))]\<rparr>)"
  by (simp add: NewsletterController_getPermissions_def UserService_findById_def
        permissions_of_def monad_defs)

lemma UserController_getPermissions_run:
  "find_user (users w) (Some (req_userId req)) = Some u \<Longrightarrow>
   UserController_getPermissions req b w =
     (if b \<and> pendingPassword u
      then Inl (APIError ''Forbidden'' FORBIDDEN ''auth.pendant-change-temporary-password'')
      else Inr (permissions_of u),
      w\<lparr>trace := trace w @ [UserService_findById_called (Some (req_userId req))]\<rparr>)"
  by (simp add: UserController_getPermissions_def UserService_findById_def
        permissions_of_def monad_defs)

text \<open>The two controllers resolve permissions alike; only the error texts differ.\<close>

lemma getPermissions_agree:
  "UserController_getPermissions req b w = (Inr p, w') \<longleftrightarrow>
   NewsletterController_getPermissions req b w = (Inr p, w')"
  by (auto simp: UserController_getPermissions_def NewsletterController_getPermissions_def
        UserService_findById_def monad_defs split: option.splits if_splits)

lemma getPermissions_Inr_permissions_of:
  "NewsletterController_getPermissions req b w = (Inr p, w') \<Longrightarrow>
   find_user (users w) (Some (req_userId req)) = Some (loggedUser p) \<and>
   \<not> (b \<and> pendingPassword (loggedUser p)) \<and> p = permissions_of (loggedUser p)"
  by (auto simp: NewsletterController_getPermissions_def permissions_of_def
        UserService_findById_def monad_defs split: option.splits if_splits)

text \<open>Every action but \<open>listAllFromLoggedUser\<close> starts with \<open>validate\<close> and
  \<open>getPermissions\<close>; for a resolved caller that prefix either stops at the gate or hands
  the permissions to the rest of the action.\<close>

lemma UserController_prefix:
  assumes "find_user (users w) (Some (req_userId req)) = Some u"
  shows "seq (UserController_validate req) (andThen (UserController_getPermissions req b) k) w =
     (if b \<and> pendingPassword u
      then (Inl (APIError ''Forbidden'' FORBIDDEN ''auth.pendant-change-temporary-password''),
            after_identity req w)
      else k (permissions_of u) (after_identity req w))"
  using assms
  by (simp add: seq_def andThen_def UserController_validate_run
        UserController_getPermissions_run after_identity_def)

lemma NewsletterController_prefix:
  assumes "find_user (users w) (Some (req_userId req)) = Some u"
  shows "seq (NewsletterController_validate req)
           (andThen (NewsletterController_getPermissions req b) k) w =
     (if b \<and> pendingPassword u
      then (Inl (APIError ''Forbidden'' FORBIDDEN
                   ''You must change your password before proceeding with this operation.''),
            after_identity req w)
      else k (permissions_of u) (after_identity req w))"
  using assms
  by (simp add: seq_def andThen_def NewsletterController_validate_run
        NewsletterController_getPermissions_run after_identity_def)

section \<open>Permission flags\<close>

text \<open>
  Claim C1, as amended. For every resolved caller record \<open>u\<close> that the pending-password
  gate lets through (the flag is off, or \<open>u\<close> has no pending password change),
  \<open>getPermissions\<close> of both controllers returns, with
  \<open>permissionOnlyHimself = NOT(super) OR (super AND pendingConfirm)\<close> and
  \<open>permissionSuper = super AND NOT(pendingConfirm)\<close>. Hence such a caller who is not super
  gets onlyHimself and not super whatever \<open>pendingConfirm\<close> is, a super caller pending
  confirmation gets the same, and a confirmed super caller gets super and not onlyHimself.
\<close>

theorem getPermissions_flags:
  assumes "find_user (users w) (Some (req_userId req)) = Some u"
    and "\<not> (b \<and> pendingPassword u)"
  shows "\<exists>p w'. NewsletterController_getPermissions req b w = (Inr p, w') \<and>
           UserController_getPermissions req b w = (Inr p, w') \<and>
           loggedUser p = u \<and>
           permissionOnlyHimself p = (\<not> super u \<or> (super u \<and> pendingConfirm u)) \<and>
           permissionSuper p = (super u \<and> \<not> pendingConfirm u) \<and>
           (\<not> super u \<longrightarrow> permissionOnlyHimself p \<and> \<not> permissionSuper p) \<and>
           (super u \<and> pendingConfirm u \<longrightarrow> permissionOnlyHimself p \<and> \<not> permissionSuper p) \<and>
           (super u \<and> \<not> pendingConfirm u \<longrightarrow> \<not> permissionOnlyHimself p \<and> permissionSuper p)"
  using assms
  by (simp add: NewsletterController_getPermissions_run UserController_getPermissions_run
        permissions_of_def)

text \<open>The three rows of the table on the sample users: alice (not super), carol (super,
  pending confirmation) and root (super, confirmed).\<close>

theorem getPermissions_flags_witness:
  "(\<exists>p w'. NewsletterController_getPermissions (request 1 None) True world0 = (Inr p, w') \<and>
      UserController_getPermissions (request 1 None) True world0 = (Inr p, w') \<and>
      loggedUser p = alice \<and> permissionOnlyHimself p \<and> \<not> permissionSuper p) \<and>
   (\<exists>p w'. NewsletterController_getPermissions (request 3 None) True world0 = (Inr p, w') \<and>
      UserController_getPermissions (request 3 None) True world0 = (Inr p, w') \<and>
      loggedUser p = carol \<and> permissionOnlyHimself p \<and> \<not> permissionSuper p) \<and>
   (\<exists>p w'. NewsletterController_getPermissions (request 2 None) False world0 = (Inr p, w') \<and>
      UserController_getPermissions (request 2 None) False world0 = (Inr p, w') \<and>
      loggedUser p = root_user \<and> \<not> permissionOnlyHimself p \<and> permissionSuper p)"
proof -
  have a: "find_user (users world0) (Some (req_userId (request 1 None))) = Some alice"
    by (simp add: sample_defs)
  have c: "find_user (users world0) (Some (req_userId (request 3 None))) = Some carol"
    by (simp add: sample_defs)
  have r: "find_user (users world0) (Some (req_userId (request 2 None))) = Some root_user"
    by (simp add: sample_defs)
  have pa: "\<not> (True \<and> pendingPassword alice)" "\<not> super alice"
    by (simp_all add: alice_def)
  have pc: "\<not> (True \<and> pendingPassword carol)" "super carol \<and> pendingConfirm carol"
    by (simp_all add: carol_def)
  have pr: "\<not> (False \<and> pendingPassword root_user)" "super root_user \<and> \<not> pendingConfirm root_user"
    by (simp_all add: root_user_def)
  show ?thesis
    using getPermissions_flags [OF a pa(1)] getPermissions_flags [OF c pc(1)]
      getPermissions_flags [OF r pr(1)] pa(2) pc(2) pr(2)
    by blast
qed

text \<open>
  The claim as first stated, for every resolved caller record, fails: dave is resolved and
  not super, but has a pending password change. With the default flag \<open>getPermissions\<close>
  of both controllers throws Forbidden and computes no flags for him.
\<close>

theorem getPermissions_pendingPassword_counterexample:
  "find_user (users world0) (Some (req_userId (request 4 None))) = Some dave \<and>
   \<not> super dave \<and> pendingPassword dave \<and>
   NewsletterController_getPermissions (request 4 None) True world0 =
     (Inl (APIError ''Forbidden'' FORBIDDEN
             ''You must change your password before proceeding with this operation.''),
      world0\<lparr>trace := [UserService_findById_called (Some 4)]\<rparr>) \<and>
   UserController_getPermissions (request 4 None) True world0 =
     (Inl (APIError ''Forbidden'' FORBIDDEN ''auth.pendant-change-temporary-password''),
      world0\<lparr>trace := [UserService_findById_called (Some 4)]\<rparr>)"
  by (simp add: NewsletterController_getPermissions_def UserController_getPermissions_def
        UserService_findById_def monad_defs sample_defs)

section \<open>Promotion\<close>

text \<open>
  Claim C2. For every caller whose permissions were resolved for \<open>promote\<close>: when
  \<open>permissionSuper\<close> is false the action fails with Forbidden, whatever the target (so
  also on the caller's own id: the super check comes first); when \<open>permissionSuper\<close> is
  true and the target is the caller's own id it fails with BadRequest. In both cases only
  the identity load happened: \<open>userService.promote\<close> was not called and no table changed.
\<close>

theorem promote_guards:
  assumes "UserController_getPermissions req True w = (Inr p, w1)"
  shows "(\<not> permissionSuper p \<longrightarrow>
            UserController_promote req w =
              (Inl (APIError ''Forbidden'' FORBIDDEN ''user.not-have-privileges-to-promote-users''),
               after_identity req w)) \<and>
         (permissionSuper p \<and> params_id req = Some (user_id (loggedUser p)) \<longrightarrow>
            UserController_promote req w =
              (Inl (APIError ''Bad Request'' BAD_REQUEST
                      ''user.not-have-privileges-to-promote-yourself''),
               after_identity req w))"
proof -
  from assms have n: "NewsletterController_getPermissions req True w = (Inr p, w1)"
    by (simp add: getPermissions_agree)
  from getPermissions_Inr_permissions_of [OF n]
  have u: "find_user (users w) (Some (req_userId req)) = Some (loggedUser p)"
    and g: "\<not> pendingPassword (loggedUser p)" and p: "permissions_of (loggedUser p) = p"
    by simp_all
  show ?thesis
    by (simp add: UserController_promote_def UserController_prefix [OF u] g p throw_def)
qed

text \<open>alice (no super permission) and root (super) each promoting their own id.\<close>

theorem promote_guards_witness:
  "UserController_promote (request 1 (Some 1)) world0 =
     (Inl (APIError ''Forbidden'' FORBIDDEN ''user.not-have-privileges-to-promote-users''),
      after_identity (request 1 (Some 1)) world0) \<and>
   UserController_promote (request 2 (Some 2)) world0 =
     (Inl (APIError ''Bad Request'' BAD_REQUEST ''user.not-have-privileges-to-promote-yourself''),
      after_identity (request 2 (Some 2)) world0)"
proof -
  have a: "UserController_getPermissions (request 1 (Some 1)) True world0 =
      (Inr (permissions_of alice), world0\<lparr>trace := [UserService_findById_called (Some 1)]\<rparr>)"
    by (simp add: UserController_getPermissions_def UserService_findById_def monad_defs
          sample_defs permissions_of_def)
  have r: "UserController_getPermissions (request 2 (Some 2)) True world0 =
      (Inr (permissions_of root_user), world0\<lparr>trace := [UserService_findById_called (Some 2)]\<rparr>)"
    by (simp add: UserController_getPermissions_def UserService_findById_def monad_defs
          sample_defs permissions_of_def)
  have fa: "\<not> permissionSuper (permissions_of alice)"
    by (simp add: permissions_of_def alice_def)
  have fr: "permissionSuper (permissions_of root_user) \<and>
      params_id (request 2 (Some 2)) = Some (user_id (loggedUser (permissions_of root_user)))"
    by (simp add: permissions_of_def root_user_def request_def)
  show ?thesis
    using promote_guards [OF a] promote_guards [OF r] fa fr by blast
qed

section \<open>Existence before ownership\<close>

lemma NewsletterController_findById_absent:
  assumes "find_user (users w) (Some (req_userId req)) = Some u"
    and "\<not> pendingPassword u"
    and "find_newsletter (newsletters w) (params_id req) = None"
  shows "NewsletterController_findById req w =
           (Inl (APIError ''Not found'' NOT_FOUND ''Newsletter not found''),
            after_newsletter_load req w)"
  unfolding NewsletterController_findById_def NewsletterController_prefix [OF assms(1)]
  using assms(2,3)
  by (simp add: Let_def NewsletterService_findById_def andThen_def throw_def
        after_identity_def after_newsletter_load_def)

lemma UserController_findById_absent:
  assumes "find_user (users w) (Some (req_userId req)) = Some u"
    and "super u \<and> \<not> pendingConfirm u"
    and "find_user (users w) (params_id req) = None"
  shows "UserController_findById req w =
           (Inl (APIError ''Not found'' NOT_FOUND ''user.not-found''),
            (after_identity req w)
              \<lparr>trace := trace (after_identity req w)
                          @ [UserService_findById_called (params_id req)]\<rparr>)"
  unfolding UserController_findById_def UserController_prefix [OF assms(1)]
  using assms(2,3)
  by (simp add: Let_def UserService_findById_def andThen_def throw_def after_identity_def
        permissions_of_def)

lemma UserController_findById_other:
  assumes "find_user (users w) (Some (req_userId req)) = Some u"
    and "\<not> super u \<or> pendingConfirm u"
    and "params_id req \<noteq> Some (user_id u)"
  shows "UserController_findById req w =
           (Inl (APIError ''Forbidden'' FORBIDDEN
                   ''user.not-have-privileges-to-another-user-data''),
            after_identity req w)"
  unfolding UserController_findById_def UserController_prefix [OF assms(1)]
  using assms(2,3)
  by (auto simp add: Let_def throw_def permissions_of_def)

lemma UserController_remove_other:
  assumes "find_user (users w) (Some (req_userId req)) = Some u"
    and "\<not> super u \<or> pendingConfirm u"
    and "params_id req \<noteq> Some (user_id u)"
  shows "UserController_remove req w =
           (Inl (APIError ''Forbidden'' FORBIDDEN ''user.not-have-privileges-to-delete-users''),
            after_identity req w)"
  unfolding UserController_remove_def UserController_prefix [OF assms(1)]
  using assms(2,3)
  by (auto simp add: Let_def throw_def permissions_of_def seq_def andThen_def)

text \<open>
  Claim C3, as amended. For every resolved caller \<open>u\<close>: if \<open>u\<close> has no pending password
  change, a newsletter read-by-id on a target that does not exist fails with NotFound
  right after the target lookup, privileged or not; a user read-by-id by a caller with
  super permission on a target that does not exist fails with NotFound right after the
  target lookup; and in the self-only user lookup and removal the identity comparison
  comes first: on any other id they fail with Forbidden with no target loaded.
\<close>

theorem read_by_id_not_found_first:
  assumes "find_user (users w) (Some (req_userId req)) = Some u"
  shows "(\<not> pendingPassword u \<and> find_newsletter (newsletters w) (params_id req) = None \<longrightarrow>
            NewsletterController_findById req w =
              (Inl (APIError ''Not found'' NOT_FOUND ''Newsletter not found''),
               after_newsletter_load req w)) \<and>
         (super u \<and> \<not> pendingConfirm u \<and> find_user (users w) (params_id req) = None \<longrightarrow>
            UserController_findById req w =
              (Inl (APIError ''Not found'' NOT_FOUND ''user.not-found''),
               (after_identity req w)
                 \<lparr>trace := trace (after_identity req w)
                             @ [UserService_findById_called (params_id req)]\<rparr>)) \<and>
         ((\<not> super u \<or> pendingConfirm u) \<and> params_id req \<noteq> Some (user_id u) \<longrightarrow>
            UserController_findById req w =
              (Inl (APIError ''Forbidden'' FORBIDDEN
                      ''user.not-have-privileges-to-another-user-data''),
               after_identity req w) \<and>
            UserController_remove req w =
              (Inl (APIError ''Forbidden'' FORBIDDEN ''user.not-have-privileges-to-delete-users''),
               after_identity req w))"
  using NewsletterController_findById_absent [OF assms]
    UserController_findById_absent [OF assms]
    UserController_findById_other [OF assms]
    UserController_remove_other [OF assms]
  by blast

text \<open>alice and root ask for newsletter 99 and user 99, which do not exist.\<close>

theorem read_by_id_not_found_first_witness:
  "NewsletterController_findById (request 1 (Some 99)) world0 =
     (Inl (APIError ''Not found'' NOT_FOUND ''Newsletter not found''),
      world0\<lparr>trace := [UserService_findById_called (Some 1),
                        NewsletterService_findById_called (Some 99)]\<rparr>) \<and>
   UserController_findById (request 2 (Some 99)) world0 =
     (Inl (APIError ''Not found'' NOT_FOUND ''user.not-found''),
      world0\<lparr>trace := [UserService_findById_called (Some 2),
                        UserService_findById_called (Some 99)]\<rparr>) \<and>
   UserController_findById (request 1 (Some 99)) world0 =
     (Inl (APIError ''Forbidden'' FORBIDDEN ''user.not-have-privileges-to-another-user-data''),
      world0\<lparr>trace := [UserService_findById_called (Some 1)]\<rparr>) \<and>
   UserController_remove (request 1 (Some 99)) world0 =
     (Inl (APIError ''Forbidden'' FORBIDDEN ''user.not-have-privileges-to-delete-users''),
      world0\<lparr>trace := [UserService_findById_called (Some 1)]\<rparr>)"
proof -
  have a: "find_user (users world0) (Some (req_userId (request 1 (Some 99)))) = Some alice"
    and r: "find_user (users world0) (Some (req_userId (request 2 (Some 99)))) = Some root_user"
    by (simp_all add: sample_defs)
  have ha: "\<not> pendingPassword alice \<and>
      find_newsletter (newsletters world0) (params_id (request 1 (Some 99))) = None"
    "(\<not> super alice \<or> pendingConfirm alice) \<and>
      params_id (request 1 (Some 99)) \<noteq> Some (user_id alice)"
    by (simp_all add: sample_defs)
  have hr: "super root_user \<and> \<not> pendingConfirm root_user \<and>
      find_user (users world0) (params_id (request 2 (Some 99))) = None"
    by (simp add: sample_defs)
  have t: "after_identity (request 1 (Some 99)) world0 =
      world0\<lparr>trace := [UserService_findById_called (Some 1)]\<rparr>"
    "after_identity (request 2 (Some 99)) world0 =
      world0\<lparr>trace := [UserService_findById_called (Some 2)]\<rparr>"
    "after_newsletter_load (request 1 (Some 99)) world0 =
      world0\<lparr>trace := [UserService_findById_called (Some 1),
                        NewsletterService_findById_called (Some 99)]\<rparr>"
    "params_id (request 1 (Some 99)) = Some 99" "params_id (request 2 (Some 99)) = Some 99"
    by (simp_all add: after_newsletter_load_def after_identity_def validation_events_def
          request_def world0_def)
  show ?thesis
    using read_by_id_not_found_first [OF a] read_by_id_not_found_first [OF r] ha hr
    by (simp add: t)
qed

text \<open>
  The claim as first stated, for every caller, fails: dave has a pending password change
  and asks for newsletter 99, which does not exist. The gate of \<open>getPermissions\<close> answers
  Forbidden before the newsletter is looked up.
\<close>

theorem findById_pendingPassword_counterexample:
  "find_user (users world0) (Some (req_userId (request 4 (Some 99)))) = Some dave \<and>
   find_newsletter (newsletters world0) (params_id (request 4 (Some 99))) = None \<and>
   NewsletterController_findById (request 4 (Some 99)) world0 =
     (Inl (APIError ''Forbidden'' FORBIDDEN
             ''You must change your password before proceeding with this operation.''),
      world0\<lparr>trace := [UserService_findById_called (Some 4)]\<rparr>)"
  by (simp add: NewsletterController_findById_def NewsletterController_getPermissions_def
        NewsletterController_validate_def UserService_findById_def monad_defs sample_defs)

section \<open>The pending-password gate\<close>

lemma NewsletterController_blocked:
  assumes "find_user (users w) (Some (req_userId req)) = Some u" and "pendingPassword u"
  shows "NewsletterController_listAll getFilter req w =
           (Inl (APIError ''Forbidden'' FORBIDDEN
                   ''You must change your password before proceeding with this operation.''),
            after_identity req w)"
    and "NewsletterController_findById req w =
           (Inl (APIError ''Forbidden'' FORBIDDEN
                   ''You must change your password before proceeding with this operation.''),
            after_identity req w)"
    and "NewsletterController_create req w =
           (Inl (APIError ''Forbidden'' FORBIDDEN
                   ''You must change your password before proceeding with this operation.''),
            after_identity req w)"
    and "NewsletterController_edit req w =
           (Inl (APIError ''Forbidden'' FORBIDDEN
                   ''You must change your password before proceeding with this operation.''),
            after_identity req w)"
    and "NewsletterController_activate req w =
           (Inl (APIError ''Forbidden'' FORBIDDEN
                   ''You must change your password before proceeding with this operation.''),
            after_identity req w)"
    and "NewsletterController_deactivate req w =
           (Inl (APIError ''Forbidden'' FORBIDDEN
                   ''You must change your password before proceeding with this operation.''),
            after_identity req w)"
    and "NewsletterController_remove req w =
           (Inl (APIError ''Forbidden'' FORBIDDEN
                   ''You must change your password before proceeding with this operation.''),
            after_identity req w)"
  unfolding NewsletterController_listAll_def NewsletterController_findById_def
    NewsletterController_create_def NewsletterController_edit_def
    NewsletterController_activate_def NewsletterController_deactivate_def
    NewsletterController_remove_def Let_def NewsletterController_prefix [OF assms(1)]
  using assms(2) by simp_all

lemma UserController_blocked:
  assumes "find_user (users w) (Some (req_userId req)) = Some u" and "pendingPassword u"
  shows "UserController_listAll getFilter req w =
           (Inl (APIError ''Forbidden'' FORBIDDEN ''auth.pendant-change-temporary-password''),
            after_identity req w)"
    and "UserController_create req w =
           (Inl (APIError ''Forbidden'' FORBIDDEN ''auth.pendant-change-temporary-password''),
            after_identity req w)"
    and "UserController_edit req w =
           (Inl (APIError ''Forbidden'' FORBIDDEN ''auth.pendant-change-temporary-password''),
            after_identity req w)"
    and "UserController_promote req w =
           (Inl (APIError ''Forbidden'' FORBIDDEN ''auth.pendant-change-temporary-password''),
            after_identity req w)"
  unfolding UserController_listAll_def UserController_create_def UserController_edit_def
    UserController_promote_def Let_def UserController_prefix [OF assms(1)]
  using assms(2) by simp_all

lemma UserController_findById_self_only_blocked:
  assumes "find_user (users w) (Some (req_userId req)) = Some u" and "pendingPassword u"
    and "\<not> super u \<or> pendingConfirm u"
  shows "\<exists>m. UserController_findById req w =
           (Inl (APIError ''Forbidden'' FORBIDDEN m), after_identity req w)"
  unfolding UserController_findById_def UserController_prefix [OF assms(1)]
  using assms(2,3) by (auto simp add: Let_def throw_def permissions_of_def)

lemma UserController_remove_self_only_blocked:
  assumes "find_user (users w) (Some (req_userId req)) = Some u" and "pendingPassword u"
    and "\<not> super u \<or> pendingConfirm u"
  shows "\<exists>m. UserController_remove req w =
           (Inl (APIError ''Forbidden'' FORBIDDEN m), after_identity req w)"
  unfolding UserController_remove_def UserController_prefix [OF assms(1)]
  using assms(2,3) by (auto simp add: Let_def throw_def permissions_of_def seq_def andThen_def)

lemma UserController_remove_self_blocked:
  assumes "find_user (users w) (Some (req_userId req)) = Some u" and "pendingPassword u"
    and "params_id req = Some (user_id u)"
  shows "UserController_remove req w =
           (Inl (APIError ''Forbidden'' FORBIDDEN ''auth.pendant-change-temporary-password''),
            after_identity req w)"
  unfolding UserController_remove_def UserController_prefix [OF assms(1)]
  using assms(2,3)
  by (simp add: Let_def throw_def return_def permissions_of_def seq_def andThen_def)

text \<open>
  Claim C4, as amended. For every resolved caller with \<open>pendingPassword = true\<close>, every
  action that resolves permissions with the default flag (all seven actions of
  \<open>NewsletterController\<close> that do so, among them \<open>edit\<close>, and \<open>listAll\<close>, \<open>create\<close>,
  \<open>edit\<close>, \<open>promote\<close> of \<open>UserController\<close>) fails with Forbidden right after the identity
  load: no target was looked up and no table changed. \<open>UserController.findById\<close> and
  \<open>remove\<close> switch the flag off: there a self-only caller with a pending password is
  still refused with Forbidden before any target load or write, and \<open>remove\<close> also refuses
  any such caller on its own id.
\<close>

theorem pending_password_gate:
  assumes "find_user (users w) (Some (req_userId req)) = Some u" and "pendingPassword u"
  shows "NewsletterController_listAll getFilter req w =
           (Inl (APIError ''Forbidden'' FORBIDDEN
                   ''You must change your password before proceeding with this operation.''),
            after_identity req w) \<and>
         NewsletterController_findById req w =
           (Inl (APIError ''Forbidden'' FORBIDDEN
                   ''You must change your password before proceeding with this operation.''),
            after_identity req w) \<and>
         NewsletterController_create req w =
           (Inl (APIError ''Forbidden'' FORBIDDEN
                   ''You must change your password before proceeding with this operation.''),
            after_identity req w) \<and>
         NewsletterController_edit req w =
           (Inl (APIError ''Forbidden'' FORBIDDEN
                   ''You must change your password before proceeding with this operation.''),
            after_identity req w) \<and>
         NewsletterController_activate req w =
           (Inl (APIError ''Forbidden'' FORBIDDEN
                   ''You must change your password before proceeding with this operation.''),
            after_identity req w) \<and>
         NewsletterController_deactivate req w =
           (Inl (APIError ''Forbidden'' FORBIDDEN
                   ''You must change your password before proceeding with this operation.''),
            after_identity req w) \<and>
         NewsletterController_remove req w =
           (Inl (APIError ''Forbidden'' FORBIDDEN
                   ''You must change your password before proceeding with this operation.''),
            after_identity req w) \<and>
         UserController_listAll getFilter req w =
           (Inl (APIError ''Forbidden'' FORBIDDEN ''auth.pendant-change-temporary-password''),
            after_identity req w) \<and>
         UserController_create req w =
           (Inl (APIError ''Forbidden'' FORBIDDEN ''auth.pendant-change-temporary-password''),
            after_identity req w) \<and>
         UserController_edit req w =
           (Inl (APIError ''Forbidden'' FORBIDDEN ''auth.pendant-change-temporary-password''),
            after_identity req w) \<and>
         UserController_promote req w =
           (Inl (APIError ''Forbidden'' FORBIDDEN ''auth.pendant-change-temporary-password''),
            after_identity req w) \<and>
         (\<not> super u \<or> pendingConfirm u \<longrightarrow>
            (\<exists>m. UserController_findById req w =
                   (Inl (APIError ''Forbidden'' FORBIDDEN m), after_identity req w)) \<and>
            (\<exists>m. UserController_remove req w =
                   (Inl (APIError ''Forbidden'' FORBIDDEN m), after_identity req w))) \<and>
         (params_id req = Some (user_id u) \<longrightarrow>
            UserController_remove req w =
              (Inl (APIError ''Forbidden'' FORBIDDEN ''auth.pendant-change-temporary-password''),
               after_identity req w))"
  using NewsletterController_blocked(1) [OF assms, of getFilter]
    NewsletterController_blocked(2-7) [OF assms]
    UserController_blocked(1) [OF assms, of getFilter]
    UserController_blocked(2-4) [OF assms]
    UserController_findById_self_only_blocked [OF assms]
    UserController_remove_self_only_blocked [OF assms]
    UserController_remove_self_blocked [OF assms]
  by blast

text \<open>dave, a self-only caller with a pending password change, acting on his own id.\<close>

theorem pending_password_gate_witness:
  "NewsletterController_edit (request 4 (Some 4)) world0 =
     (Inl (APIError ''Forbidden'' FORBIDDEN
             ''You must change your password before proceeding with this operation.''),
      world0\<lparr>trace := [UserService_findById_called (Some 4)]\<rparr>) \<and>
   UserController_edit (request 4 (Some 4)) world0 =
     (Inl (APIError ''Forbidden'' FORBIDDEN ''auth.pendant-change-temporary-password''),
      world0\<lparr>trace := [UserService_findById_called (Some 4)]\<rparr>) \<and>
   (\<exists>m. UserController_findById (request 4 (Some 4)) world0 =
      (Inl (APIError ''Forbidden'' FORBIDDEN m),
       world0\<lparr>trace := [UserService_findById_called (Some 4)]\<rparr>)) \<and>
   UserController_remove (request 4 (Some 4)) world0 =
     (Inl (APIError ''Forbidden'' FORBIDDEN ''auth.pendant-change-temporary-password''),
      world0\<lparr>trace := [UserService_findById_called (Some 4)]\<rparr>)"
proof -
  have d: "find_user (users world0) (Some (req_userId (request 4 (Some 4)))) = Some dave"
    by (simp add: sample_defs)
  have h: "pendingPassword dave" "\<not> super dave \<or> pendingConfirm dave"
    "params_id (request 4 (Some 4)) = Some (user_id dave)"
    by (simp_all add: sample_defs)
  have t: "after_identity (request 4 (Some 4)) world0 =
      world0\<lparr>trace := [UserService_findById_called (Some 4)]\<rparr>"
    by (simp add: after_identity_def validation_events_def request_def world0_def)
  show ?thesis
    using pending_password_gate [OF d h(1), of getFilter0] h(2,3)
    by (simp add: t)
qed

text \<open>
  The claim as first stated, for every action, fails on the two actions that switch the
  flag off: erin has super permission and a pending password change; her removal of
  alice goes through, and so does her lookup of alice.
\<close>

theorem remove_pendingPassword_counterexample:
  "find_user (users world0) (Some (req_userId (request 5 (Some 1)))) = Some erin \<and>
   pendingPassword erin \<and>
   UserController_remove (request 5 (Some 1)) world0 =
     (Inr (),
      \<lparr>users = [root_user, carol, dave, erin], newsletters = [weekly, monthly, weekly_root],
       trace = [UserService_findById_called (Some 5), UserService_findById_called (Some 1),
                UserService_remove_called alice, Res_status NO_CONTENT, Res_json Json_undefined,
                Next_called False]\<rparr>) \<and>
   UserController_findById (request 5 (Some 1)) world0 =
     (Inr (),
      world0\<lparr>trace := [UserService_findById_called (Some 5),
                        UserService_findById_called (Some 1),
                        Res_json (Json_User (Some alice)), Next_called False]\<rparr>)"
  by (simp add: UserController_remove_def UserController_findById_def
        UserController_getPermissions_def UserController_validate_def
        UserService_findById_def UserService_remove_def Let_def monad_defs sample_defs)

section \<open>Editing a newsletter\<close>

text \<open>
  Claim C5. For every caller resolved as onlyHimself who edits an existing newsletter:
  if the newsletter is not the caller's, the edit fails with Forbidden, whatever the
  payload; if it is the caller's and the payload's owner id differs from the existing
  owner, the edit fails with Forbidden too. The two checks are separate statements with
  their own messages, and in both cases nothing was written.
\<close>

theorem edit_ownership_checks:
  assumes "NewsletterController_getPermissions req True w = (Inr p, w1)"
    and "permissionOnlyHimself p"
    and "find_newsletter (newsletters w) (params_id req) = Some n"
  shows "(userId n \<noteq> Some (user_id (loggedUser p)) \<longrightarrow>
            NewsletterController_edit req w =
              (Inl (APIError ''Forbidden'' FORBIDDEN
                      ''You don't have privileges to edit newsletters of another users''),
               after_newsletter_load req w)) \<and>
         (userId n = Some (user_id (loggedUser p)) \<and> body_userId (body req) \<noteq> userId n \<longrightarrow>
            NewsletterController_edit req w =
              (Inl (APIError ''Forbidden'' FORBIDDEN
                      ''You don't have privileges to transfer newsletters to another users''),
               after_newsletter_load req w))"
proof -
  from getPermissions_Inr_permissions_of [OF assms(1)]
  have u: "find_user (users w) (Some (req_userId req)) = Some (loggedUser p)"
    and g: "\<not> pendingPassword (loggedUser p)" and p: "permissions_of (loggedUser p) = p"
    by simp_all
  show ?thesis
    unfolding NewsletterController_edit_def NewsletterController_prefix [OF u]
    using assms(2,3) g
    by (auto simp add: p Let_def NewsletterService_findById_def andThen_def throw_def
          after_identity_def after_newsletter_load_def)
qed

text \<open>alice edits root's newsletter 12, and her own newsletter 10 with the owner set to 2.\<close>

theorem edit_ownership_checks_witness:
  "NewsletterController_edit (request 1 (Some 12)) world0 =
     (Inl (APIError ''Forbidden'' FORBIDDEN
             ''You don't have privileges to edit newsletters of another users''),
      world0\<lparr>trace := [UserService_findById_called (Some 1),
                        NewsletterService_findById_called (Some 12)]\<rparr>) \<and>
   NewsletterController_edit
     ((request 1 (Some 10))\<lparr>body := body0\<lparr>body_userId := Some 2\<rparr>\<rparr>) world0 =
     (Inl (APIError ''Forbidden'' FORBIDDEN
             ''You don't have privileges to transfer newsletters to another users''),
      world0\<lparr>trace := [UserService_findById_called (Some 1),
                        NewsletterService_findById_called (Some 10)]\<rparr>)"
proof -
  let ?r1 = "request 1 (Some 12)"
  let ?r2 = "(request 1 (Some 10))\<lparr>body := body0\<lparr>body_userId := Some 2\<rparr>\<rparr>"
  have g1: "NewsletterController_getPermissions ?r1 True world0 =
      (Inr (permissions_of alice), world0\<lparr>trace := [UserService_findById_called (Some 1)]\<rparr>)"
    and g2: "NewsletterController_getPermissions ?r2 True world0 =
      (Inr (permissions_of alice), world0\<lparr>trace := [UserService_findById_called (Some 1)]\<rparr>)"
    by (simp_all add: NewsletterController_getPermissions_def UserService_findById_def
          monad_defs sample_defs permissions_of_def)
  have o: "permissionOnlyHimself (permissions_of alice)"
    by (simp add: permissions_of_def alice_def)
  have n1: "find_newsletter (newsletters world0) (params_id ?r1) = Some weekly_root"
    and n2: "find_newsletter (newsletters world0) (params_id ?r2) = Some weekly"
    by (simp_all add: sample_defs)
  have h1: "userId weekly_root \<noteq> Some (user_id (loggedUser (permissions_of alice)))"
    and h2: "userId weekly = Some (user_id (loggedUser (permissions_of alice))) \<and>
      body_userId (body ?r2) \<noteq> userId weekly"
    by (simp_all add: sample_defs permissions_of_def)
  have t: "after_newsletter_load ?r1 world0 =
      world0\<lparr>trace := [UserService_findById_called (Some 1),
                        NewsletterService_findById_called (Some 12)]\<rparr>"
    "after_newsletter_load ?r2 world0 =
      world0\<lparr>trace := [UserService_findById_called (Some 1),
                        NewsletterService_findById_called (Some 10)]\<rparr>"
    by (simp_all add: after_newsletter_load_def after_identity_def validation_events_def
          request_def world0_def)
  have e1: "NewsletterController_edit ?r1 world0 =
      (Inl (APIError ''Forbidden'' FORBIDDEN
              ''You don't have privileges to edit newsletters of another users''),
       after_newsletter_load ?r1 world0)"
    using edit_ownership_checks [OF g1 o n1] h1 by blast
  have e2: "NewsletterController_edit ?r2 world0 =
      (Inl (APIError ''Forbidden'' FORBIDDEN
              ''You don't have privileges to transfer newsletters to another users''),
       after_newsletter_load ?r2 world0)"
    using edit_ownership_checks [OF g2 o n2] h2 by blast
  from e1 e2 show ?thesis
    unfolding t by blast
qed

section \<open>Listing\<close>

lemma NewsletterController_listAll_run:
  assumes "NewsletterController_getPermissions req True w = (Inr p, w1)"
  shows "\<exists>f rows.
           NewsletterController_listAll getFilter req w =
             (Inr (),
              (after_identity req w)
                \<lparr>trace := trace (after_identity req w)
                            @ [NewsletterService_findAll_called f,
                               Res_json (PagingData_Newsletter rows
                                           (filter_page f) (filter_size f))]\<rparr>) \<and>
           rows = filter (\<lambda>n. owner_matches f (userId n) \<and> name_matches f (newsletter_name n))
                    (newsletters w) \<and>
           (permissionOnlyHimself p \<longrightarrow> filter_userId f = Some (user_id (loggedUser p))) \<and>
           (\<forall>s. requested_name req = Some s \<longrightarrow> filter_name f = Some s)"
proof -
  from getPermissions_Inr_permissions_of [OF assms(1)]
  have u: "find_user (users w) (Some (req_userId req)) = Some (loggedUser p)"
    and g: "\<not> pendingPassword (loggedUser p)" and p: "permissions_of (loggedUser p) = p"
    by simp_all
  define f1 where "f1 =
    (if permissionOnlyHimself p \<or> query_loggedUser req
     then (getFilter req)\<lparr>filter_userId := Some (user_id (loggedUser p))\<rparr> else getFilter req)"
  define f where "f =
    (if query_name req \<noteq> None \<and> query_name req \<noteq> Some []
     then f1\<lparr>filter_name := query_name req\<rparr> else f1)"
  have run: "NewsletterController_listAll getFilter req w =
      (Inr (),
       (after_identity req w)
         \<lparr>trace := trace (after_identity req w)
                     @ [NewsletterService_findAll_called f,
                        Res_json (PagingData_Newsletter
                          (filter (\<lambda>n. owner_matches f (userId n) \<and>
                                     name_matches f (newsletter_name n)) (newsletters w))
                          (filter_page f) (filter_size f))]\<rparr>)"
    unfolding NewsletterController_listAll_def NewsletterController_prefix [OF u]
    using g
    by (simp add: p Let_def NewsletterService_findAll_def andThen_def res_json_def
          emit_def after_identity_def f_def f1_def)
  have own: "permissionOnlyHimself p \<longrightarrow> filter_userId f = Some (user_id (loggedUser p))"
    by (simp add: f_def f1_def)
  have nm: "\<forall>s. requested_name req = Some s \<longrightarrow> filter_name f = Some s"
    by (auto simp add: f_def requested_name_def split: if_splits)
  from run own nm show ?thesis by blast
qed

lemma UserController_listAll_self_only:
  assumes "NewsletterController_getPermissions req True w = (Inr p, w1)"
    and "permissionOnlyHimself p"
  shows "\<exists>pg sz. UserController_listAll getFilter req w =
           (Inr (),
            (after_identity req w)
              \<lparr>trace := trace (after_identity req w)
                          @ [Res_json (PagingDataForSingle (loggedUser p) pg sz),
                             Next_called False]\<rparr>)"
proof -
  from getPermissions_Inr_permissions_of [OF assms(1)]
  have u: "find_user (users w) (Some (req_userId req)) = Some (loggedUser p)"
    and g: "\<not> pendingPassword (loggedUser p)" and p: "permissions_of (loggedUser p) = p"
    by simp_all
  show ?thesis
    unfolding UserController_listAll_def UserController_prefix [OF u]
    using g assms(2)
    by (auto simp add: p Let_def monad_defs after_identity_def)
qed

text \<open>
  Claim C6. For every resolved caller, listing newsletters calls \<open>findAll\<close> once and
  answers with the page of the rows found; the filter carries the requested name whenever
  one is given, restricted caller or not, and every row then contains that name. If the
  caller is onlyHimself, the filter's \<open>userId\<close> is the caller's id and every row is a
  stored newsletter owned by the caller; and listing users calls no \<open>findAll\<close> and answers
  with the single-item page of the caller's own record.
\<close>

theorem listAll_self_only:
  assumes "NewsletterController_getPermissions req True w = (Inr p, w1)"
  shows "(\<exists>f rows.
           NewsletterController_listAll getFilter req w =
             (Inr (),
              (after_identity req w)
                \<lparr>trace := trace (after_identity req w)
                            @ [NewsletterService_findAll_called f,
                               Res_json (PagingData_Newsletter rows
                                           (filter_page f) (filter_size f))]\<rparr>) \<and>
           (\<forall>s. requested_name req = Some s \<longrightarrow>
              filter_name f = Some s \<and> (\<forall>n \<in> set rows. contains (newsletter_name n) s)) \<and>
           (permissionOnlyHimself p \<longrightarrow>
              filter_userId f = Some (user_id (loggedUser p)) \<and>
              (\<forall>n \<in> set rows. n \<in> set (newsletters w) \<and>
                 userId n = Some (user_id (loggedUser p))))) \<and>
         (permissionOnlyHimself p \<longrightarrow>
            (\<exists>pg sz. UserController_getPermissions req True w = (Inr p, w1) \<and>
               UserController_listAll getFilter req w =
                 (Inr (),
                  (after_identity req w)
                    \<lparr>trace := trace (after_identity req w)
                                @ [Res_json (PagingDataForSingle (loggedUser p) pg sz),
                                   Next_called False]\<rparr>)))"
proof -
  from NewsletterController_listAll_run [OF assms(1), of getFilter]
  obtain f rows where r: "NewsletterController_listAll getFilter req w =
             (Inr (),
              (after_identity req w)
                \<lparr>trace := trace (after_identity req w)
                            @ [NewsletterService_findAll_called f,
                               Res_json (PagingData_Newsletter rows
                                           (filter_page f) (filter_size f))]\<rparr>)"
    and rows: "rows = filter (\<lambda>n. owner_matches f (userId n) \<and> name_matches f (newsletter_name n))
                    (newsletters w)"
    and own: "permissionOnlyHimself p \<longrightarrow> filter_userId f = Some (user_id (loggedUser p))"
    and nm: "\<forall>s. requested_name req = Some s \<longrightarrow> filter_name f = Some s"
    by blast
  have named: "\<forall>s. requested_name req = Some s \<longrightarrow>
      filter_name f = Some s \<and> (\<forall>n \<in> set rows. contains (newsletter_name n) s)"
    using rows nm by (auto simp add: name_matches_def)
  have owned: "permissionOnlyHimself p \<longrightarrow>
      filter_userId f = Some (user_id (loggedUser p)) \<and>
      (\<forall>n \<in> set rows. n \<in> set (newsletters w) \<and> userId n = Some (user_id (loggedUser p)))"
    using rows own by (auto simp add: owner_matches_def)
  from r named owned have 1: "\<exists>f rows.
           NewsletterController_listAll getFilter req w =
             (Inr (),
              (after_identity req w)
                \<lparr>trace := trace (after_identity req w)
                            @ [NewsletterService_findAll_called f,
                               Res_json (PagingData_Newsletter rows
                                           (filter_page f) (filter_size f))]\<rparr>) \<and>
           (\<forall>s. requested_name req = Some s \<longrightarrow>
              filter_name f = Some s \<and> (\<forall>n \<in> set rows. contains (newsletter_name n) s)) \<and>
           (permissionOnlyHimself p \<longrightarrow>
              filter_userId f = Some (user_id (loggedUser p)) \<and>
              (\<forall>n \<in> set rows. n \<in> set (newsletters w) \<and>
                 userId n = Some (user_id (loggedUser p))))"
    by blast
  from assms(1) have 2: "UserController_getPermissions req True w = (Inr p, w1)"
    by (simp add: getPermissions_agree)
  from 1 2 UserController_listAll_self_only [OF assms, of getFilter] show ?thesis by blast
qed

text \<open>The scenario of the specification: caller 1, not super, lists with
  \<open>name = "Weekly"\<close>. Of the three stored newsletters only the caller's \<open>Weekly digest\<close> is
  returned: \<open>Monthly\<close> has another name and \<open>Root Weekly\<close> another owner.\<close>

theorem listAll_self_only_witness:
  "NewsletterController_listAll getFilter0
     ((request 1 None)\<lparr>query_name := Some ''Weekly''\<rparr>) world0 =
     (Inr (),
      world0\<lparr>trace :=
        [UserService_findById_called (Some 1),
         NewsletterService_findAll_called
           \<lparr>filter_page = 0, filter_size = 10, filter_name = Some ''Weekly'',
            filter_userId = Some 1\<rparr>,
         Res_json (PagingData_Newsletter [weekly] 0 10)]\<rparr>) \<and>
   UserController_listAll getFilter0
     ((request 1 None)\<lparr>query_name := Some ''Weekly''\<rparr>) world0 =
     (Inr (),
      world0\<lparr>trace :=
        [UserService_findById_called (Some 1),
         Res_json (PagingDataForSingle alice 0 10), Next_called False]\<rparr>)"
proof -
  let ?r = "(request 1 None)\<lparr>query_name := Some ''Weekly''\<rparr>"
  have g: "NewsletterController_getPermissions ?r True world0 =
      (Inr (permissions_of alice), world0\<lparr>trace := [UserService_findById_called (Some 1)]\<rparr>)"
    by (simp add: NewsletterController_getPermissions_def UserService_findById_def
          monad_defs sample_defs permissions_of_def)
  have o: "permissionOnlyHimself (permissions_of alice)"
    by (simp add: permissions_of_def alice_def)
  have n: "NewsletterController_listAll getFilter0 ?r world0 =
     (Inr (),
      world0\<lparr>trace :=
        [UserService_findById_called (Some 1),
         NewsletterService_findAll_called
           \<lparr>filter_page = 0, filter_size = 10, filter_name = Some ''Weekly'',
            filter_userId = Some 1\<rparr>,
         Res_json (PagingData_Newsletter [weekly] 0 10)]\<rparr>)"
    by (simp add: NewsletterController_listAll_def NewsletterController_getPermissions_def
          NewsletterController_validate_def UserService_findById_def
          NewsletterService_findAll_def owner_matches_def name_matches_def Let_def
          monad_defs sample_defs)
  have u: "UserController_listAll getFilter0 ?r world0 =
     (Inr (),
      world0\<lparr>trace :=
        [UserService_findById_called (Some 1),
         Res_json (PagingDataForSingle alice 0 10), Next_called False]\<rparr>)"
    by (simp add: UserController_listAll_def UserController_getPermissions_def
          UserController_validate_def UserService_findById_def Let_def
          monad_defs sample_defs)
  have q: "requested_name ?r = Some ''Weekly''"
    by (simp add: requested_name_def request_def)
  show ?thesis
    using listAll_self_only [OF g, of getFilter0] o q n u by blast
qed

section \<open>Failures and writes\<close>

lemma find_user_removed: "find_user (filter (\<lambda>x. user_id x \<noteq> k) us) (Some k) = None"
  by (induction us) (auto simp add: find_user_def)

text \<open>
  A self-only caller without a pending password change who removes their own record:
  the record is removed and 204 is sent, then control falls out of the self-only branch,
  the same id is looked up again, is gone, and the action fails with NotFound.
\<close>

lemma UserController_remove_self_only_own:
  assumes "find_user (users w) (Some (req_userId req)) = Some u"
    and "\<not> super u \<or> pendingConfirm u"
    and "\<not> pendingPassword u"
    and "params_id req = Some (user_id u)"
  shows "UserController_remove req w =
           (Inl (APIError ''Not found'' NOT_FOUND ''user.not-found''),
            w\<lparr>users := filter (\<lambda>x. user_id x \<noteq> user_id u) (users w),
               trace := trace (after_identity req w)
                        @ [UserService_remove_called u, Res_status NO_CONTENT,
                           Res_json Json_undefined, Next_called True,
                           UserService_findById_called (Some (user_id u))]\<rparr>)"
  unfolding UserController_remove_def UserController_prefix [OF assms(1)]
  using assms(2,3,4)
  by (auto simp add: Let_def permissions_of_def monad_defs UserService_remove_def
        UserService_findById_def find_user_removed after_identity_def)

text \<open>
  Claim C7. The claim asks that a failing action leaves the store unchanged, in
  particular \<open>UserController.remove\<close> for a self-only caller removing their own record.
  The code does otherwise: alice, a self-only caller, removes her own record; the action
  fails with NotFound, raised by the second lookup, after her record was removed and 204
  was sent.
\<close>

theorem remove_self_fallthrough:
  "UserController_remove (request 1 (Some 1)) world0 =
     (Inl (APIError ''Not found'' NOT_FOUND ''user.not-found''),
      \<lparr>users = [root_user, carol, dave, erin], newsletters = [weekly, monthly, weekly_root],
       trace = [UserService_findById_called (Some 1), UserService_remove_called alice,
                Res_status NO_CONTENT, Res_json Json_undefined, Next_called True,
                UserService_findById_called (Some 1)]\<rparr>)"
  by (simp add: UserController_remove_def UserController_getPermissions_def
        UserController_validate_def UserService_findById_def UserService_remove_def
        Let_def monad_defs sample_defs)

section \<open>Validation\<close>

text \<open>
  Claim C8. The claim asks that a request whose validation result is not empty is
  answered with 422 and that nothing else runs. The code does otherwise: \<open>validate\<close> sends
  the 422 and returns to its caller, which goes on. For root creating a newsletter with
  one validation error, the caller is resolved, the newsletter is saved, and the action
  then calls \<open>res.status(CREATED).json\<close> and logs the activity.
\<close>

theorem create_after_failed_validation:
  "NewsletterController_create
     ((request 2 None)\<lparr>validationErrors := [''name is required'']\<rparr>) world0 =
     (Inr (),
      \<lparr>users = [alice, root_user, carol, dave, erin],
       newsletters = [weekly, monthly, weekly_root,
                      \<lparr>newsletter_id = 13, newsletter_name = ''News'', userId = None,
                       active = True\<rparr>],
       trace = [Res_status UNPROCESSABLE_ENTITY, Res_json (Errors [''name is required'']),
                UserService_findById_called (Some 2), NewsletterService_save_called body0,
                Res_status CREATED,
                Res_json (Json_Newsletter \<lparr>newsletter_id = 13, newsletter_name = ''News'',
                                            userId = None, active = True\<rparr>),
                LogActivity 13 ''News'' ''was created'' 2 ''root'']\<rparr>)"
  by (simp add: NewsletterController_create_def NewsletterController_getPermissions_def
        NewsletterController_validate_def UserService_findById_def NewsletterService_save_def
        logActivity_Newsletter_def fresh_id_def Let_def monad_defs sample_defs)

section \<open>The logged user's newsletters\<close>

text \<open>
  Claim C9. \<open>listAll\<close> is bound neither by the method's parameters nor by the module, so
  for every request, on every global object without a \<open>listAll\<close>,
  \<open>listAllFromLoggedUser\<close> fails with a ReferenceError: no call reaches a service or the
  response, and no newsletter list is returned.
\<close>

theorem listAllFromLoggedUser_ReferenceError:
  assumes "globals ''listAll'' = None"
  shows "NewsletterController_listAllFromLoggedUser globals req w =
           (Inl (ReferenceError ''listAll is not defined''), w)"
  using assms
  by (simp add: NewsletterController_listAllFromLoggedUser_def method_scope_def
        module_scope_def throw_def)

theorem listAllFromLoggedUser_ReferenceError_witness:
  "NewsletterController_listAllFromLoggedUser (\<lambda>_. None) (request 1 None) world0 =
     (Inl (ReferenceError ''listAll is not defined''), world0)"
  using listAllFromLoggedUser_ReferenceError [of "\<lambda>_. None" "request 1 None" world0]
  by simp

section \<open>Feed encoding\<close>

text \<open>
  Claim C10. For every feed whose locale is a string \<open>l\<close>, \<open>getEncoding\<close> returns
  \<open>Windows-1252\<close> exactly when \<open>l\<close> lowercased is \<open>pt-br\<close> or \<open>en-us\<close>, and \<open>UTF-8\<close> for every
  other locale.
\<close>

theorem getEncoding_iff:
  assumes "feed_locale this = Some l"
  shows "(getEncoding toLowerCase this = Inr ''Windows-1252'' \<longleftrightarrow>
            toLowerCase l = ''pt-br'' \<or> toLowerCase l = ''en-us'') \<and>
         (getEncoding toLowerCase this = Inr ''UTF-8'' \<longleftrightarrow>
            \<not> (toLowerCase l = ''pt-br'' \<or> toLowerCase l = ''en-us''))"
  using assms by (simp add: getEncoding_def Let_def)

theorem getEncoding_iff_witness:
  "getEncoding ascii_toLowerCase (feed0 (Some ''pt-BR'')) = Inr ''Windows-1252'' \<and>
   getEncoding ascii_toLowerCase (feed0 (Some ''EN-us'')) = Inr ''Windows-1252'' \<and>
   getEncoding ascii_toLowerCase (feed0 (Some ''fr-FR'')) = Inr ''UTF-8''"
proof -
  have l: "ascii_toLowerCase ''pt-BR'' = ''pt-br''" "ascii_toLowerCase ''EN-us'' = ''en-us''"
    "ascii_toLowerCase ''fr-FR'' = ''fr-fr''"
    by code_simp+
  have f: "feed_locale (feed0 (Some ''pt-BR'')) = Some ''pt-BR''"
    "feed_locale (feed0 (Some ''EN-us'')) = Some ''EN-us''"
    "feed_locale (feed0 (Some ''fr-FR'')) = Some ''fr-FR''"
    by (simp_all add: feed0_def)
  show ?thesis
    using getEncoding_iff [OF f(1), of ascii_toLowerCase]
      getEncoding_iff [OF f(2), of ascii_toLowerCase]
      getEncoding_iff [OF f(3), of ascii_toLowerCase]
    by (simp add: l)
qed

end
